theory Spec2Isabelle
  imports Main
begin

section \<open>Python values and built-ins used by benchmark\_spec.py\<close>

text \<open>
  The attributes \<open>zones\<close>, \<open>image\<close> and \<open>machine_type\<close> of a \<open>BenchmarkSpec\<close> change
  their Python type during the life of the object: they are lists while a topology is
  being resolved and strings afterwards, and \<open>image\<close> and \<open>project\<close> may be \<open>None\<close>.
  \<open>py_val\<close> keeps that dynamic type.
\<close>

datatype py_val = PyNone | PyStr string | PyList "string list"

type_synonym vm_ref = nat
type_synonym net_ref = nat
type_synonym list_ref = nat

text \<open>
  Modelled from the spec: \<open>disk.BaseDiskSpec\<close> is not among the sources. The spec's disk
  spec is a size, a disk type and a mount point; the module builds it as
  \<open>BaseDiskSpec(disk_size, disk_type, mount_point)\<close>, the disk type being the provider's
  alias, \<open>None\<close> where the provider has no disk type option.
\<close>

record BaseDiskSpec =
  disk_size :: int
  disk_type :: "string option"
  mount_point :: string

datatype vm_class =
  GceVirtualMachine | AzureVirtualMachine | AwsVirtualMachine | StaticVirtualMachine
datatype network_class = GceNetwork | AzureNetwork | AwsNetwork
datatype firewall_class = GceFirewall | AzureFirewall | AwsFirewall

text \<open>
  Modelled from the spec: the provider modules are not among the sources. The spec's
  firewall is constructed from a project; \<open>firewall_class(self.project)\<close> is an object
  of the provider's class for that project.
\<close>

record BaseFirewall =
  fw_class :: firewall_class
  fw_project :: py_val

text \<open>
  Modelled from the spec: the methods of the provider objects and
  \<open>perfkitbenchmarker_lib.BurnCpu\<close> are not among the sources. They are the spec's
  capability interface, whose effects lie with the provider: each call this module makes
  is recorded in the order it is made, and it returns or raises.
\<close>

datatype provider_op =
    VmCreate vm_ref
  | FirewallAllowPort BaseFirewall vm_ref int
  | VmWaitForBootCompletion vm_ref
  | VmAptUpdate vm_ref
  | VmCreateScratchDisk vm_ref BaseDiskSpec
  | BurnCpu vm_ref
  | VmDelete vm_ref
  | VmDeleteScratchDisks vm_ref
  | FirewallDisallowAllPorts BaseFirewall
  | NetworkCreate net_ref
  | NetworkDelete net_ref

datatype py_error =
    KeyError string
  | IndexError
  | TypeError
  | AttributeError
  | ValueError
  | IOError string
  | UnpicklingError
  | PicklingError
  | ProviderError provider_op

text \<open>\<open>d[k]\<close> on a dictionary with string keys: \<open>KeyError\<close> when the key is absent.\<close>

definition dict_get :: "(string \<times> 'v) list \<Rightarrow> string \<Rightarrow> py_error + 'v" where
  "dict_get d k = (case map_of d k of None \<Rightarrow> Inl (KeyError k) | Some v \<Rightarrow> Inr v)"

text \<open>\<open>k in d\<close>.\<close>

definition dict_has :: "(string \<times> 'v) list \<Rightarrow> string \<Rightarrow> bool" where
  "dict_has d k = (map_of d k \<noteq> None)"

text \<open>\<open>d[k] = v\<close>: an existing key keeps its place, a new key is added.\<close>

fun dict_set :: "(string \<times> 'v) list \<Rightarrow> string \<Rightarrow> 'v \<Rightarrow> (string \<times> 'v) list" where
  "dict_set [] k v = [(k, v)]"
| "dict_set ((k', v') # d) k v = (if k' = k then (k, v) # d else (k', v') # dict_set d k v)"

text \<open>\<open>s.split(':')\<close>, \<open>s.startswith(p)\<close>, \<open>','.join(xs)\<close> and \<open>x in s\<close> on strings.\<close>

fun split_on :: "char \<Rightarrow> string \<Rightarrow> string list" where
  "split_on c [] = [[]]"
| "split_on c (x # xs) =
     (if x = c then [] # split_on c xs
      else (case split_on c xs of [] \<Rightarrow> [[x]] | p # ps \<Rightarrow> (x # p) # ps))"

definition startswith :: "string \<Rightarrow> string \<Rightarrow> bool" where
  "startswith s p = (take (length p) s = p)"

fun join :: "string \<Rightarrow> string list \<Rightarrow> string" where
  "join sep [] = []"
| "join sep [x] = x"
| "join sep (x # y # ys) = x @ sep @ join sep (y # ys)"

fun str_contains :: "string \<Rightarrow> string \<Rightarrow> bool" where
  "str_contains [] sub = (sub = [])"
| "str_contains (c # cs) sub = (startswith (c # cs) sub \<or> str_contains cs sub)"

text \<open>\<open>int(s)\<close> on a string: surrounding whitespace, an optional sign, decimal digits;
  anything else is a \<open>ValueError\<close>.\<close>

definition is_space :: "char \<Rightarrow> bool" where
  "is_space c = (c \<in> set [CHR 0x20, CHR 0x09, CHR 0x0A, CHR 0x0B, CHR 0x0C, CHR 0x0D])"

definition is_digit :: "char \<Rightarrow> bool" where
  "is_digit c = (48 \<le> (of_char c :: nat) \<and> (of_char c :: nat) \<le> 57)"

definition strip :: "string \<Rightarrow> string" where
  "strip s = rev (dropWhile is_space (rev (dropWhile is_space s)))"

definition digits_value :: "string \<Rightarrow> nat" where
  "digits_value ds = foldl (\<lambda>a c. 10 * a + ((of_char c :: nat) - 48)) 0 ds"

definition py_int :: "string \<Rightarrow> py_error + int" where
  "py_int s =
     (let t = strip s;
          neg = (t \<noteq> [] \<and> hd t = CHR ''-'');
          body = (if t \<noteq> [] \<and> (hd t = CHR ''-'' \<or> hd t = CHR ''+'') then tl t else t)
      in if body = [] \<or> \<not> list_all is_digit body then Inl ValueError
         else Inr (if neg then - int (digits_value body) else int (digits_value body)))"

text \<open>\<open>'%d' % n\<close> for \<open>n\<close> drawn from a \<open>range\<close>.\<close>

fun str_of_nat :: "nat \<Rightarrow> string" where
  "str_of_nat n =
     (if n < 10 then [''0123456789'' ! n]
      else str_of_nat (n div 10) @ [''0123456789'' ! (n mod 10)])"

declare str_of_nat.simps [simp del]

text \<open>\<open>len(v)\<close> and \<open>v[i]\<close> on a list or a string; a negative index counts from the
  end, an index out of range is an \<open>IndexError\<close>.\<close>

fun py_len :: "py_val \<Rightarrow> py_error + int" where
  "py_len PyNone = Inl TypeError"
| "py_len (PyStr s) = Inr (int (length s))"
| "py_len (PyList xs) = Inr (int (length xs))"

definition list_get :: "'a list \<Rightarrow> int \<Rightarrow> py_error + 'a" where
  "list_get xs i =
     (if 0 \<le> i \<and> i < int (length xs) then Inr (xs ! nat i)
      else if i < 0 \<and> - int (length xs) \<le> i then Inr (xs ! nat (int (length xs) + i))
      else Inl IndexError)"

fun py_index :: "py_val \<Rightarrow> int \<Rightarrow> py_error + string" where
  "py_index PyNone i = Inl TypeError"
| "py_index (PyStr s) i = list_get (map (\<lambda>c. [c]) s) i"
| "py_index (PyList xs) i = list_get xs i"

text \<open>\<open>x in v\<close>: membership in a list, substring of a string, \<open>TypeError\<close> on \<open>None\<close>.\<close>

fun py_in :: "string \<Rightarrow> py_val \<Rightarrow> py_error + bool" where
  "py_in x PyNone = Inl TypeError"
| "py_in x (PyStr s) = Inr (str_contains s x)"
| "py_in x (PyList xs) = Inr (x \<in> set xs)"

text \<open>\<open>if x not in v: v.append(x)\<close>: a string has no \<open>append\<close>.\<close>

definition append_if_absent :: "string \<Rightarrow> py_val \<Rightarrow> py_error + py_val" where
  "append_if_absent x v =
     (case py_in x v of
        Inl e \<Rightarrow> Inl e
      | Inr True \<Rightarrow> Inr v
      | Inr False \<Rightarrow> (case v of PyList xs \<Rightarrow> Inr (PyList (xs @ [x])) | _ \<Rightarrow> Inl AttributeError))"

section \<open>The provider tables\<close>

definition GCP :: string where "GCP = ''GCP''"
definition AZURE :: string where "AZURE = ''Azure''"
definition AWS :: string where "AWS = ''AWS''"
definition STANDARD :: string where "STANDARD = ''standard''"
definition SSD :: string where "SSD = ''ssd''"
definition IOPS :: string where "IOPS = ''iops''"
definition SSH_PORT :: int where "SSH_PORT = 22"

text \<open>The inner dictionaries of \<open>DEFAULTS\<close> and \<open>CLASSES\<close> have the same three constant
  keys for every provider and are read only by those constants: they are records.\<close>

record provider_defaults =
  IMAGE :: "string option"
  MACHINE_TYPE :: string
  ZONE :: string

record provider_classes =
  VIRTUAL_MACHINE :: vm_class
  NETWORK :: network_class
  FIREWALL :: firewall_class

definition DEFAULTS :: "(string \<times> provider_defaults) list" where
  "DEFAULTS =
    [(GCP, \<lparr>IMAGE = Some ''debian-7-backports'', MACHINE_TYPE = ''n1-standard-1'',
            ZONE = ''us-central1-a''\<rparr>),
     (AZURE, \<lparr>IMAGE = Some (''b39f27a8b8c64d52b05eac6a62ebad85__Ubuntu-'' @
                            ''14_04-LTS-amd64-server-20140724-en-us-30GB''),
              MACHINE_TYPE = ''small'', ZONE = ''East US''\<rparr>),
     (AWS, \<lparr>IMAGE = None, MACHINE_TYPE = ''m3.medium'', ZONE = ''us-east-1a''\<rparr>)]"

definition CLASSES :: "(string \<times> provider_classes) list" where
  "CLASSES =
    [(GCP, \<lparr>VIRTUAL_MACHINE = GceVirtualMachine, NETWORK = GceNetwork,
            FIREWALL = GceFirewall\<rparr>),
     (AZURE, \<lparr>VIRTUAL_MACHINE = AzureVirtualMachine, NETWORK = AzureNetwork,
              FIREWALL = AzureFirewall\<rparr>),
     (AWS, \<lparr>VIRTUAL_MACHINE = AwsVirtualMachine, NETWORK = AwsNetwork,
            FIREWALL = AwsFirewall\<rparr>)]"

definition DISK_TYPE :: "(string \<times> (string \<times> string option) list) list" where
  "DISK_TYPE =
    [(GCP, [(STANDARD, Some ''pd-standard''), (SSD, Some ''pd-ssd'')]),
     (AWS, [(STANDARD, Some ''standard''), (SSD, Some ''gp2''), (IOPS, Some ''io1'')]),
     (AZURE, [(STANDARD, None)])]"

text \<open>\<open>DISK_TYPE[cloud][disk_type]\<close>: either lookup may raise \<open>KeyError\<close>; the value found
  may be \<open>None\<close>.\<close>

definition disk_type_alias :: "string \<Rightarrow> string \<Rightarrow> py_error + string option" where
  "disk_type_alias c t =
     (case dict_get DISK_TYPE c of Inl e \<Rightarrow> Inl e | Inr aliases \<Rightarrow> dict_get aliases t)"

section \<open>Objects\<close>

text \<open>
  Modelled from the spec: \<open>virtual_machine.BaseVirtualMachineSpec\<close> and the classes of
  virtual machines and networks are not among the sources. The spec's virtual machine
  spec is a value object of project, zone, machine type, image and network, built here
  as \<open>BaseVirtualMachineSpec(project, zone, machine_type, image, network)\<close>. A virtual
  machine object keeps the class that built it, the spec it was built from and its own,
  initially empty, list \<open>disk_specs\<close> of pending disk specs; a network object is
  constructed from a zone and keeps its class and that zone. Objects live in heaps and
  are named by their index, so that two names of one object see the same updates.
\<close>

record BaseVirtualMachineSpec =
  spec_project :: py_val
  spec_zone :: string
  spec_machine_type :: py_val
  spec_image :: py_val
  spec_network :: net_ref

record BaseVirtualMachine =
  vm_class_of :: vm_class
  vm_spec_of :: BaseVirtualMachineSpec
  disk_specs :: "BaseDiskSpec list"

record BaseNetwork =
  net_class :: network_class
  net_zone :: string

text \<open>
  Modelled from the spec: \<open>config_reader.ConfigLoader\<close> is not among the sources. A
  loaded topology description is its named sections with the options of each
  (\<open>_config.sections()\<close>, \<open>GetSectionOptionsAsDictionary\<close>) and the names of its node
  sections (\<open>node_sections\<close>), of the form \<open>kind:group\<close>.
\<close>

record ConfigLoader =
  sections :: "(string \<times> (string \<times> string) list) list"
  node_sections :: "string list"

record flags =
  FLAGS_cloud :: string
  FLAGS_project :: py_val
  FLAGS_zones :: "string list"
  FLAGS_image :: "string option"
  FLAGS_machine_type :: "string option"
  FLAGS_num_vms :: int
  FLAGS_scratch_disk_size :: int
  FLAGS_scratch_disk_type :: py_val
  FLAGS_run_stage :: string
  FLAGS_benchmark_config_pair :: "(string \<times> ConfigLoader) list"

record benchmark_info =
  info_name :: string
  info_num_machines :: "int option"
  info_scratch_disk :: int

text \<open>
  The attributes of a \<open>BenchmarkSpec\<close>. \<open>vms\<close> and the values of \<open>vm_dict\<close> name Python
  lists of virtual machines, \<open>networks\<close> maps a zone to a network object. \<open>config\<close>,
  \<open>vm_spec\<close>, \<open>firewall\<close> and the scratch disk attributes exist only once assigned.
  \<open>num_vms\<close>, \<open>file_name\<close> and \<open>deleted\<close> are assigned by every run of \<open>__init__\<close> that
  returns; until then they hold zero, the empty string and \<open>False\<close>, which nothing reads.
\<close>

record BenchmarkSpec =
  config :: "ConfigLoader option"
  vms :: list_ref
  vm_dict :: "(string \<times> list_ref) list"
  networks :: "(string \<times> net_ref) list"
  cloud :: string
  project :: py_val
  zones :: py_val
  image_attr :: py_val
  machine_type :: py_val
  num_vms :: int
  scratch_disk_size :: "int option"
  scratch_disk_type :: "py_val option"
  vm_spec :: "BaseVirtualMachineSpec option"
  firewall :: "BaseFirewall option"
  file_name :: string
  deleted :: bool

text \<open>
  \<open>pickle\<close> writes the object graph reachable from the plan and reads back an equal
  graph: the plan with the heaps its references point into. A file is unreadable, holds
  bytes that are no pickle, or holds a pickled graph.
\<close>

type_synonym snapshot =
  "BenchmarkSpec \<times> BaseVirtualMachine list \<times> BaseNetwork list \<times> vm_ref list list"

datatype stored_file = Unreadable | Garbled | PickleOf snapshot

datatype log_record = INFO_VM_ip vm_ref | INFO string | ERROR string

text \<open>
  Everything outside the plan object: the heaps, the answers the static source still has
  to give, the provider calls made so far and which call raises after which history, the
  log, the file system (which paths can be written, which object graphs \<open>pickle\<close> can
  dump), and the process-wide values. \<open>vm_util.GetTempDir()\<close> and
  \<open>ini_constants.OPTION_PD_PREFIX\<close> are not among the sources: the directory and the
  prefix are parameters, fixed for a process.
\<close>

record state =
  vm_heap :: "BaseVirtualMachine list"
  net_heap :: "BaseNetwork list"
  list_heap :: "vm_ref list list"
  static_source :: "vm_ref option list"
  trace :: "provider_op list"
  provider_fails :: "provider_op list \<Rightarrow> provider_op \<Rightarrow> bool"
  log_records :: "log_record list"
  files :: "string \<Rightarrow> stored_file option"
  writable :: "string \<Rightarrow> bool"
  picklable :: "snapshot \<Rightarrow> bool"
  temp_dir :: string
  OPTION_PD_PREFIX :: string
  FLAGS :: flags

definition GetTempDir :: "state \<Rightarrow> string" where
  "GetTempDir st = temp_dir st"

definition logging :: "log_record \<Rightarrow> state \<Rightarrow> state" where
  "logging r st = st\<lparr>log_records := log_records st @ [r]\<rparr>"

text \<open>A provider call: recorded, then it returns or raises.\<close>

definition perform :: "provider_op \<Rightarrow> state \<Rightarrow> (py_error + unit) \<times> state" where
  "perform op st =
     (if provider_fails st (trace st) op then Inl (ProviderError op) else Inr (),
      st\<lparr>trace := trace st @ [op]\<rparr>)"

text \<open>Statement sequencing: an exception skips what follows and keeps the state reached.\<close>

definition then_do ::
  "(py_error + 'a) \<times> 's \<Rightarrow> ('a \<Rightarrow> 's \<Rightarrow> (py_error + 'b) \<times> 's) \<Rightarrow> (py_error + 'b) \<times> 's" where
  "then_do r f = (case r of (Inl e, s) \<Rightarrow> (Inl e, s) | (Inr a, s) \<Rightarrow> f a s)"

text \<open>
  Modelled from the spec: \<open>perfkitbenchmarker_lib.RunThreaded\<close> is not among the sources.
  The spec's batch executor invokes the operation on every item, waits for all of them,
  never cancels the siblings of a failing item and returns the per-item failures. The
  items are run here one after the other in list order, which is one of the schedules
  the executor allows.
\<close>

fun RunThreaded ::
  "('a \<Rightarrow> 's \<Rightarrow> (py_error + unit) \<times> 's) \<Rightarrow> 'a list \<Rightarrow> 's \<Rightarrow> ('a \<times> py_error) list \<times> 's" where
  "RunThreaded target [] s = ([], s)"
| "RunThreaded target (x # xs) s =
     (case target x s of
        (r, s1) \<Rightarrow>
          (case RunThreaded target xs s1 of
             (failures, s2) \<Rightarrow>
               ((case r of Inl e \<Rightarrow> [(x, e)] | Inr _ \<Rightarrow> []) @ failures, s2)))"

text \<open>
  Modelled from the spec: \<open>StaticVirtualMachine.GetStaticVirtualMachine\<close> is not among the
  sources. The spec's static override is an optional external source of pre-existing
  virtual machine handles: each request is answered with a handle or with \<open>None\<close>, and
  with \<open>None\<close> once the source has nothing more to say.
\<close>

definition GetStaticVirtualMachine :: "state \<Rightarrow> vm_ref option \<times> state" where
  "GetStaticVirtualMachine st =
     (case static_source st of
        [] \<Rightarrow> (None, st)
      | answer # rest \<Rightarrow> (answer, st\<lparr>static_source := rest\<rparr>))"

section \<open>Constructing objects\<close>

definition new_vm :: "vm_class \<Rightarrow> BaseVirtualMachineSpec \<Rightarrow> state \<Rightarrow> vm_ref \<times> state" where
  "new_vm cls spec st =
     (length (vm_heap st),
      st\<lparr>vm_heap := vm_heap st @ [\<lparr>vm_class_of = cls, vm_spec_of = spec, disk_specs = []\<rparr>]\<rparr>)"

definition new_network :: "network_class \<Rightarrow> string \<Rightarrow> state \<Rightarrow> net_ref \<times> state" where
  "new_network cls zone st =
     (length (net_heap st), st\<lparr>net_heap := net_heap st @ [\<lparr>net_class = cls, net_zone = zone\<rparr>]\<rparr>)"

definition new_list :: "vm_ref list \<Rightarrow> state \<Rightarrow> list_ref \<times> state" where
  "new_list xs st = (length (list_heap st), st\<lparr>list_heap := list_heap st @ [xs]\<rparr>)"

text \<open>\<open>some_list.extend(new)\<close> on the list object \<open>l\<close>.\<close>

definition extend_list :: "list_ref \<Rightarrow> vm_ref list \<Rightarrow> state \<Rightarrow> state" where
  "extend_list l new st = st\<lparr>list_heap := (list_heap st)[l := list_heap st ! l @ new]\<rparr>"

text \<open>\<open>for vm in vms: vm.disk_specs.append(disk_spec)\<close>.\<close>

fun append_disk_spec :: "BaseDiskSpec \<Rightarrow> vm_ref list \<Rightarrow> state \<Rightarrow> state" where
  "append_disk_spec disk_spec [] st = st"
| "append_disk_spec disk_spec (vm # rest) st =
     append_disk_spec disk_spec rest
       (st\<lparr>vm_heap := (vm_heap st)
          [vm := (vm_heap st ! vm)\<lparr>disk_specs := disk_specs (vm_heap st ! vm) @ [disk_spec]\<rparr>]\<rparr>)"

section \<open>CreateVirtualMachine\<close>

text \<open>
  Lines 208 to 210, and again 230 to 232: the network of a zone is constructed when the
  zone is not yet a key of \<open>self.networks\<close>, and stored under it.
\<close>

definition memoize_network ::
  "string \<Rightarrow> BenchmarkSpec \<Rightarrow> state \<Rightarrow> (py_error + unit) \<times> BenchmarkSpec \<times> state" where
  "memoize_network zone self st =
     (if dict_has (networks self) zone then (Inr (), self, st)
      else
        (case dict_get CLASSES (cloud self) of
           Inl e \<Rightarrow> (Inl e, self, st)
         | Inr classes \<Rightarrow>
             (case new_network (NETWORK classes) zone st of
                (net, st1) \<Rightarrow>
                  (Inr (), self\<lparr>networks := dict_set (networks self) zone net\<rparr>, st1))))"

text \<open>\<open>opt_zone or self.zones[0]\<close>: \<open>None\<close> and the empty string are both false.\<close>

definition zone_or_first :: "string option \<Rightarrow> BenchmarkSpec \<Rightarrow> py_error + string" where
  "zone_or_first opt_zone self =
     (case opt_zone of
        None \<Rightarrow> py_index (zones self) 0
      | Some z \<Rightarrow> if z \<noteq> [] then Inr z else py_index (zones self) 0)"

definition CreateVirtualMachine ::
  "string option \<Rightarrow> BenchmarkSpec \<Rightarrow> state \<Rightarrow> (py_error + vm_ref) \<times> BenchmarkSpec \<times> state" where
  "CreateVirtualMachine opt_zone self st =
     (case GetStaticVirtualMachine st of
        (Some vm, st1) \<Rightarrow> (Inr vm, self, st1)
      | (None, st1) \<Rightarrow>
          (case dict_get CLASSES (cloud self) of
             Inl e \<Rightarrow> (Inl e, self, st1)
           | Inr classes \<Rightarrow>
               (case zone_or_first opt_zone self of
                  Inl e \<Rightarrow> (Inl e, self, st1)
                | Inr zone \<Rightarrow>
                    (case memoize_network zone self st1 of
                       (Inl e, self1, st2) \<Rightarrow> (Inl e, self1, st2)
                     | (Inr _, self1, st2) \<Rightarrow>
                         (case dict_get (networks self1) zone of
                            Inl e \<Rightarrow> (Inl e, self1, st2)
                          | Inr net \<Rightarrow>
                              (let spec = \<lparr>spec_project = project self1, spec_zone = zone,
                                           spec_machine_type = machine_type self1,
                                           spec_image = image_attr self1, spec_network = net\<rparr>;
                                   self2 = self1\<lparr>vm_spec := Some spec\<rparr>
                               in case new_vm (VIRTUAL_MACHINE classes) spec st2 of
                                    (vm, st3) \<Rightarrow> (Inr vm, self2, st3)))))))"

section \<open>CreateVirtualMachineFromNodeSection\<close>

text \<open>Line 223.\<close>

definition node_zone :: "(string \<times> string) list \<Rightarrow> BenchmarkSpec \<Rightarrow> py_error + string" where
  "node_zone node_section self =
     (if dict_has node_section ''zone'' then dict_get node_section ''zone''
      else py_index (zones self) 0)"

text \<open>Lines 224 to 229: the zone, image and machine type are appended to the plan's
  summaries when not yet there. An exception keeps the appends already made. \<open>__init__\<close>
  calls the method only while it resolves a topology, where the three summaries are
  lists it has just made; they are kept in the plan.\<close>

definition note_summaries ::
  "string \<Rightarrow> (string \<times> string) list \<Rightarrow> BenchmarkSpec \<Rightarrow> (py_error + unit) \<times> BenchmarkSpec" where
  "note_summaries zone node_section self =
     (case append_if_absent zone (zones self) of
        Inl e \<Rightarrow> (Inl e, self)
      | Inr zs \<Rightarrow>
          (let self1 = self\<lparr>zones := zs\<rparr> in
           case dict_get node_section ''image'' of
             Inl e \<Rightarrow> (Inl e, self1)
           | Inr img \<Rightarrow>
               (case append_if_absent img (image_attr self1) of
                  Inl e \<Rightarrow> (Inl e, self1)
                | Inr imgs \<Rightarrow>
                    (let self2 = self1\<lparr>image_attr := imgs\<rparr> in
                     case dict_get node_section ''vm_type'' of
                       Inl e \<Rightarrow> (Inl e, self2)
                     | Inr vm_type \<Rightarrow>
                         (case append_if_absent vm_type (machine_type self2) of
                            Inl e \<Rightarrow> (Inl e, self2)
                          | Inr types \<Rightarrow> (Inr (), self2\<lparr>machine_type := types\<rparr>))))))"

text \<open>Line 240: \<open>[vm_class(vm_spec) for _ in range(n)]\<close>.\<close>

fun new_vms ::
  "vm_class \<Rightarrow> BaseVirtualMachineSpec \<Rightarrow> nat \<Rightarrow> state \<Rightarrow> vm_ref list \<times> state" where
  "new_vms cls spec 0 st = ([], st)"
| "new_vms cls spec (Suc n) st =
     (case new_vm cls spec st of
        (vm, st1) \<Rightarrow> (case new_vms cls spec n st1 of (rest, st2) \<Rightarrow> (vm # rest, st2)))"

text \<open>Lines 247 to 250: the value of a persistent disk option is split at the colons
  into exactly three parts, the size is read as an integer and the logical disk type is
  looked up in \<open>DISK_TYPE\<close>.\<close>

definition parse_disk_option :: "string \<Rightarrow> string \<Rightarrow> py_error + BaseDiskSpec" where
  "parse_disk_option c v =
     (case split_on CHR '':'' v of
        [size_text, type_text, mnt_point] \<Rightarrow>
          (case py_int size_text of
             Inl e \<Rightarrow> Inl e
           | Inr disk_size_int \<Rightarrow>
               (case disk_type_alias c type_text of
                  Inl e \<Rightarrow> Inl e
                | Inr t \<Rightarrow> Inr \<lparr>disk_size = disk_size_int, disk_type = t, mount_point = mnt_point\<rparr>))
      | _ \<Rightarrow> Inl ValueError)"

text \<open>Lines 244 to 252: the loop over the options of the section.\<close>

fun attach_disks ::
  "string list \<Rightarrow> (string \<times> string) list \<Rightarrow> string \<Rightarrow> vm_ref list \<Rightarrow> state \<Rightarrow>
   (py_error + unit) \<times> state" where
  "attach_disks [] node_section c new st = (Inr (), st)"
| "attach_disks (option # rest) node_section c new st =
     (if startswith option (OPTION_PD_PREFIX st) then
        (case dict_get node_section option of
           Inl e \<Rightarrow> (Inl e, st)
         | Inr v \<Rightarrow>
             (case parse_disk_option c v of
                Inl e \<Rightarrow> (Inl e, st)
              | Inr disk_spec \<Rightarrow>
                  attach_disks rest node_section c new (append_disk_spec disk_spec new st)))
      else attach_disks rest node_section c new st)"

definition CreateVirtualMachineFromNodeSection ::
  "(string \<times> string) list \<Rightarrow> string \<Rightarrow> BenchmarkSpec \<Rightarrow> state \<Rightarrow>
   (py_error + unit) \<times> BenchmarkSpec \<times> state" where
  "CreateVirtualMachineFromNodeSection node_section node_name self st =
     (case node_zone node_section self of
        Inl e \<Rightarrow> (Inl e, self, st)
      | Inr zone \<Rightarrow>
     (case note_summaries zone node_section self of
        (Inl e, self1) \<Rightarrow> (Inl e, self1, st)
      | (Inr _, self1) \<Rightarrow>
     (case memoize_network zone self1 st of
        (Inl e, self2, st1) \<Rightarrow> (Inl e, self2, st1)
      | (Inr _, self2, st1) \<Rightarrow>
     (case dict_get node_section ''vm_type'' of
        Inl e \<Rightarrow> (Inl e, self2, st1)
      | Inr vm_type \<Rightarrow>
     (case dict_get node_section ''image'' of
        Inl e \<Rightarrow> (Inl e, self2, st1)
      | Inr img \<Rightarrow>
     (case dict_get (networks self2) zone of
        Inl e \<Rightarrow> (Inl e, self2, st1)
      | Inr net \<Rightarrow>
     (case dict_get CLASSES (cloud self2) of
        Inl e \<Rightarrow> (Inl e, self2, st1)
      | Inr classes \<Rightarrow>
     (case dict_get node_section ''count'' of
        Inl e \<Rightarrow> (Inl e, self2, st1)
      | Inr count_text \<Rightarrow>
     (case py_int count_text of
        Inl e \<Rightarrow> (Inl e, self2, st1)
      | Inr n \<Rightarrow>
     (case new_vms (VIRTUAL_MACHINE classes)
             \<lparr>spec_project = project self2, spec_zone = zone,
              spec_machine_type = PyStr vm_type, spec_image = PyStr img,
              spec_network = net\<rparr> (nat n) st1 of
        (new, st2) \<Rightarrow>
     (case dict_get (vm_dict self2) node_name of
        Inl e \<Rightarrow> (Inl e, self2, extend_list (vms self2) new st2)
      | Inr node_list \<Rightarrow>
     (case attach_disks (map fst node_section) node_section (cloud self2) new
             (extend_list node_list new (extend_list (vms self2) new st2)) of
        (r, st3) \<Rightarrow> (r, self2, st3)))))))))))))"

section \<open>Prepare and Delete\<close>

fun create_scratch_disks ::
  "vm_ref \<Rightarrow> BaseDiskSpec list \<Rightarrow> state \<Rightarrow> (py_error + unit) \<times> state" where
  "create_scratch_disks vm [] st = (Inr (), st)"
| "create_scratch_disks vm (disk_spec # rest) st =
     then_do (perform (VmCreateScratchDisk vm disk_spec) st)
       (\<lambda>_. create_scratch_disks vm rest)"

definition PrepareVm :: "vm_ref \<Rightarrow> BaseFirewall \<Rightarrow> state \<Rightarrow> (py_error + unit) \<times> state" where
  "PrepareVm vm fw st =
     then_do (perform (VmCreate vm) st) (\<lambda>_ st1.
     then_do (perform (FirewallAllowPort fw vm SSH_PORT)
                (logging (INFO ''Waiting for boot completion.'')
                   (logging (INFO_VM_ip vm) st1))) (\<lambda>_ st2.
     then_do (perform (VmWaitForBootCompletion vm) st2) (\<lambda>_ st3.
     then_do (perform (VmAptUpdate vm) st3) (\<lambda>_ st4.
     then_do (create_scratch_disks vm (disk_specs (vm_heap st4 ! vm)) st4) (\<lambda>_ st5.
     perform (BurnCpu vm) st5)))))"

definition DeleteVm :: "vm_ref \<Rightarrow> state \<Rightarrow> (py_error + unit) \<times> state" where
  "DeleteVm vm st =
     then_do (perform (VmDelete vm) st) (\<lambda>_ st1. perform (VmDeleteScratchDisks vm) st1)"

definition PrepareNetwork :: "net_ref \<Rightarrow> state \<Rightarrow> (py_error + unit) \<times> state" where
  "PrepareNetwork network st = perform (NetworkCreate network) st"

definition Prepare :: "BenchmarkSpec \<Rightarrow> state \<Rightarrow> (py_error + unit) \<times> state" where
  "Prepare self st =
     (let st1 = (if networks self \<noteq> []
                 then snd (RunThreaded PrepareNetwork (map snd (networks self)) st)
                 else st)
      in if list_heap st1 ! vms self \<noteq> [] then
           (case firewall self of
              None \<Rightarrow> (Inl AttributeError, st1)
            | Some fw \<Rightarrow>
                (Inr (),
                 snd (RunThreaded (\<lambda>(vm, fw). PrepareVm vm fw)
                        (map (\<lambda>vm. (vm, fw)) (list_heap st1 ! vms self)) st1)))
         else (Inr (), st1))"

text \<open>Lines 186 and 187.\<close>

fun delete_networks :: "net_ref list \<Rightarrow> state \<Rightarrow> (py_error + unit) \<times> state" where
  "delete_networks [] st = (Inr (), st)"
| "delete_networks (network # rest) st =
     then_do (perform (NetworkDelete network) st) (\<lambda>_. delete_networks rest)"

definition Delete ::
  "BenchmarkSpec \<Rightarrow> state \<Rightarrow> (py_error + unit) \<times> BenchmarkSpec \<times> state" where
  "Delete self st =
     (if FLAGS_run_stage (FLAGS st) \<notin> set [''all'', ''cleanup''] \<or> deleted self
      then (Inr (), self, st)
      else
        (let st1 = (if list_heap st ! vms self \<noteq> []
                    then snd (RunThreaded DeleteVm (list_heap st ! vms self) st)
                    else st)
         in case firewall self of
              None \<Rightarrow> (Inl AttributeError, self, st1)
            | Some fw \<Rightarrow>
                (case perform (FirewallDisallowAllPorts fw) st1 of
                   (Inl e, st2) \<Rightarrow> (Inl e, self, st2)
                 | (Inr _, st2) \<Rightarrow>
                     (case delete_networks (map snd (networks self)) st2 of
                        (Inl e, st3) \<Rightarrow> (Inl e, self, st3)
                      | (Inr _, st3) \<Rightarrow> (Inr (), self\<lparr>deleted := True\<rparr>, st3)))))"

section \<open>PickleSpec and GetSpecFromFile\<close>

definition snapshot_of :: "BenchmarkSpec \<Rightarrow> state \<Rightarrow> snapshot" where
  "snapshot_of self st = (self, vm_heap st, net_heap st, list_heap st)"

text \<open>Opening the file for writing may fail; a dump that fails leaves a file that is no
  pickle.\<close>

definition PickleSpec :: "BenchmarkSpec \<Rightarrow> state \<Rightarrow> (py_error + unit) \<times> state" where
  "PickleSpec self st =
     (if \<not> writable st (file_name self) then (Inl (IOError (file_name self)), st)
      else if picklable st (snapshot_of self st)
      then (Inr (), st\<lparr>files := (files st)(file_name self \<mapsto> PickleOf (snapshot_of self st))\<rparr>)
      else (Inl PicklingError, st\<lparr>files := (files st)(file_name self \<mapsto> Garbled)\<rparr>))"

text \<open>The \<open>try\<close> block of lines 296 to 298.\<close>

definition open_and_load :: "string \<Rightarrow> state \<Rightarrow> py_error + snapshot" where
  "open_and_load path st =
     (case files st path of
        None \<Rightarrow> Inl (IOError path)
      | Some Unreadable \<Rightarrow> Inl (IOError path)
      | Some Garbled \<Rightarrow> Inl UnpicklingError
      | Some (PickleOf spec) \<Rightarrow> Inr spec)"

definition GetSpecFromFile :: "string \<Rightarrow> state \<Rightarrow> (py_error + snapshot) \<times> state" where
  "GetSpecFromFile name st =
     (case open_and_load (GetTempDir st @ ''/'' @ name) st of
        Inl e \<Rightarrow>
          (Inl e,
           logging (ERROR (''Unable to unpickle spec file for benchmark '' @ name @ ''.'')) st)
      | Inr spec \<Rightarrow> (Inr spec, st))"

section \<open>\_\_init\_\_\<close>

text \<open>Lines 153 to 156: the list comprehension over \<open>range(self.num_vms)\<close>.\<close>

fun create_vms ::
  "nat list \<Rightarrow> BenchmarkSpec \<Rightarrow> state \<Rightarrow> (py_error + vm_ref list) \<times> BenchmarkSpec \<times> state" where
  "create_vms [] self st = (Inr [], self, st)"
| "create_vms (index # rest) self st =
     (case py_len (zones self) of
        Inl e \<Rightarrow> (Inl e, self, st)
      | Inr n \<Rightarrow>
          (case py_index (zones self) (min (int index) (n - 1)) of
             Inl e \<Rightarrow> (Inl e, self, st)
           | Inr zone \<Rightarrow>
               (case CreateVirtualMachine (Some zone) self st of
                  (Inl e, self1, st1) \<Rightarrow> (Inl e, self1, st1)
                | (Inr vm, self1, st1) \<Rightarrow>
                    (case create_vms rest self1 st1 of
                       (Inl e, self2, st2) \<Rightarrow> (Inl e, self2, st2)
                     | (Inr others, self2, st2) \<Rightarrow> (Inr (vm # others), self2, st2)))))"

text \<open>Lines 158 to 164: one scratch disk spec per index, appended to every virtual
  machine of the plan.\<close>

fun scratch_disks :: "nat list \<Rightarrow> BenchmarkSpec \<Rightarrow> state \<Rightarrow> (py_error + unit) \<times> state" where
  "scratch_disks [] self st = (Inr (), st)"
| "scratch_disks (i # rest) self st =
     (case scratch_disk_size self of
        None \<Rightarrow> (Inl AttributeError, st)
      | Some disk_size_int \<Rightarrow>
          (case disk_type_alias (cloud self) STANDARD of
             Inl e \<Rightarrow> (Inl e, st)
           | Inr t \<Rightarrow>
               scratch_disks rest self
                 (append_disk_spec
                    \<lparr>disk_size = disk_size_int, disk_type = t,
                     mount_point = ''/scratch'' @ str_of_nat i\<rparr>
                    (list_heap st ! vms self) st)))"

text \<open>\<open>x or d\<close> for an optional string flag.\<close>

definition flag_or :: "string option \<Rightarrow> py_val \<Rightarrow> py_val" where
  "flag_or x d = (case x of None \<Rightarrow> d | Some s \<Rightarrow> if s \<noteq> [] then PyStr s else d)"

text \<open>Lines 139 to 164, the branch taken without a topology: \<open>l0\<close> and \<open>l1\<close> are the lists
  made at lines 115 and 116.\<close>

definition init_flags_branch ::
  "benchmark_info \<Rightarrow> list_ref \<Rightarrow> list_ref \<Rightarrow> state \<Rightarrow> (py_error + BenchmarkSpec) \<times> state" where
  "init_flags_branch info l0 l1 st =
     (case dict_get DEFAULTS (FLAGS_cloud (FLAGS st)) of
        Inl e \<Rightarrow> (Inl e, st)
      | Inr defaults \<Rightarrow>
          (let self0 =
                 \<lparr>config = None, vms = l0, vm_dict = [(''default'', l1)], networks = [],
                  cloud = FLAGS_cloud (FLAGS st), project = FLAGS_project (FLAGS st),
                  zones = PyList (if FLAGS_zones (FLAGS st) \<noteq> [] then FLAGS_zones (FLAGS st)
                                  else [ZONE defaults]),
                  image_attr = flag_or (FLAGS_image (FLAGS st))
                                 (case IMAGE defaults of None \<Rightarrow> PyNone | Some i \<Rightarrow> PyStr i),
                  machine_type = flag_or (FLAGS_machine_type (FLAGS st))
                                   (PyStr (MACHINE_TYPE defaults)),
                  num_vms = (case info_num_machines info of
                               None \<Rightarrow> FLAGS_num_vms (FLAGS st) | Some n \<Rightarrow> n),
                  scratch_disk_size = Some (FLAGS_scratch_disk_size (FLAGS st)),
                  scratch_disk_type = Some (FLAGS_scratch_disk_type (FLAGS st)),
                  vm_spec = None, firewall = None, file_name = [], deleted = False\<rparr>
           in case create_vms [0..<nat (num_vms self0)] self0 st of
                (Inl e, self1, st1) \<Rightarrow> (Inl e, st1)
              | (Inr new, self1, st1) \<Rightarrow>
                  (case new_list new st1 of
                     (l2, st2) \<Rightarrow>
                       (let self2 = self1\<lparr>vms := l2,
                                          vm_dict := dict_set (vm_dict self1) ''default'' l2\<rparr>
                        in case scratch_disks [0..<nat (info_scratch_disk info)] self2 st2 of
                             (Inl e, st3) \<Rightarrow> (Inl e, st3)
                           | (Inr _, st3) \<Rightarrow> (Inr self2, st3)))))"

text \<open>Lines 128 and 129: an empty group for every node section, named by the part of
  the section name after its first colon.\<close>

fun node_groups ::
  "string list \<Rightarrow> BenchmarkSpec \<Rightarrow> state \<Rightarrow> (py_error + unit) \<times> BenchmarkSpec \<times> state" where
  "node_groups [] self st = (Inr (), self, st)"
| "node_groups (node # rest) self st =
     (case list_get (split_on CHR '':'' node) 1 of
        Inl e \<Rightarrow> (Inl e, self, st)
      | Inr node_name \<Rightarrow>
          (case new_list [] st of
             (l, st1) \<Rightarrow>
               node_groups rest (self\<lparr>vm_dict := dict_set (vm_dict self) node_name l\<rparr>) st1))"

text \<open>Lines 130 and 131: the arguments of the calls handed to \<open>RunThreaded\<close>.\<close>

fun node_args ::
  "(string \<times> (string \<times> string) list) list \<Rightarrow> string list \<Rightarrow>
   py_error + ((string \<times> string) list \<times> string) list" where
  "node_args config_dict [] = Inr []"
| "node_args config_dict (node # rest) =
     (case dict_get config_dict node of
        Inl e \<Rightarrow> Inl e
      | Inr node_section \<Rightarrow>
          (case list_get (split_on CHR '':'' node) 1 of
             Inl e \<Rightarrow> Inl e
           | Inr node_name \<Rightarrow>
               (case node_args config_dict rest of
                  Inl e \<Rightarrow> Inl e
                | Inr args \<Rightarrow> Inr ((node_section, node_name) # args))))"

text \<open>\<open>','.join(v)\<close>.\<close>

fun py_join :: "string \<Rightarrow> py_val \<Rightarrow> py_error + py_val" where
  "py_join sep PyNone = Inl TypeError"
| "py_join sep (PyStr s) = Inr (PyStr (join sep (map (\<lambda>c. [c]) s)))"
| "py_join sep (PyList xs) = Inr (PyStr (join sep xs))"

text \<open>Lines 119 to 137, the branch taken with a topology.\<close>

definition init_config_branch ::
  "ConfigLoader \<Rightarrow> list_ref \<Rightarrow> list_ref \<Rightarrow> state \<Rightarrow> (py_error + BenchmarkSpec) \<times> state" where
  "init_config_branch cfg l0 l1 st =
     (case dict_get (sections cfg) ''cluster'' of
        Inl e \<Rightarrow> (Inl e, st)
      | Inr cluster \<Rightarrow>
     (case dict_get cluster ''type'' of
        Inl e \<Rightarrow> (Inl e, st)
      | Inr cluster_type \<Rightarrow>
     (case dict_get cluster ''project'' of
        Inl e \<Rightarrow> (Inl e, st)
      | Inr cluster_project \<Rightarrow>
     (case dict_get cluster ''zone'' of
        Inl e \<Rightarrow> (Inl e, st)
      | Inr cluster_zone \<Rightarrow>
     (case node_groups (node_sections cfg)
             \<lparr>config = Some cfg, vms = l0, vm_dict = [(''default'', l1)], networks = [],
              cloud = cluster_type, project = PyStr cluster_project,
              zones = PyList [cluster_zone], image_attr = PyList [],
              machine_type = PyList [], num_vms = 0, scratch_disk_size = None,
              scratch_disk_type = None, vm_spec = None, firewall = None, file_name = [],
              deleted = False\<rparr> st of
        (Inl e, self1, st1) \<Rightarrow> (Inl e, st1)
      | (Inr _, self1, st1) \<Rightarrow>
     (case node_args (sections cfg) (node_sections cfg) of
        Inl e \<Rightarrow> (Inl e, st1)
      | Inr args \<Rightarrow>
     (case RunThreaded
             (\<lambda>(node_section, node_name) (self, s).
                 CreateVirtualMachineFromNodeSection node_section node_name self s)
             args (self1, st1) of
        (failures, (self2, st2)) \<Rightarrow>
     (case py_join '','' (image_attr self2) of
        Inl e \<Rightarrow> (Inl e, st2)
      | Inr images \<Rightarrow>
     (case py_join '','' (zones self2) of
        Inl e \<Rightarrow> (Inl e, st2)
      | Inr zone_names \<Rightarrow>
     (case py_join '','' (machine_type self2) of
        Inl e \<Rightarrow> (Inl e, st2)
      | Inr types \<Rightarrow>
          (Inr (self2\<lparr>num_vms := int (length (list_heap st2 ! vms self2)),
                      image_attr := images, zones := zone_names, machine_type := types\<rparr>),
           st2)))))))))))"

text \<open>Lines 166 to 169.\<close>

definition finish_init ::
  "benchmark_info \<Rightarrow> BenchmarkSpec \<Rightarrow> state \<Rightarrow> (py_error + BenchmarkSpec) \<times> state" where
  "finish_init info self st =
     (case dict_get CLASSES (cloud self) of
        Inl e \<Rightarrow> (Inl e, st)
      | Inr classes \<Rightarrow>
          (Inr (self\<lparr>firewall := Some \<lparr>fw_class = FIREWALL classes, fw_project = project self\<rparr>,
                     file_name := GetTempDir st @ ''/'' @ info_name info,
                     deleted := False\<rparr>),
           st))"

text \<open>
  Lines 109 to 114 and 118: the topology of the benchmark, when
  \<open>FLAGS.benchmark_config_pair\<close> names one for it. The flag maps a benchmark name to its
  topology, taken as already loaded.
\<close>

definition selected_config :: "benchmark_info \<Rightarrow> state \<Rightarrow> ConfigLoader option" where
  "selected_config info st =
     (if FLAGS_benchmark_config_pair (FLAGS st) \<noteq> []
      then map_of (FLAGS_benchmark_config_pair (FLAGS st)) (info_name info)
      else None)"

text \<open>\<open>BenchmarkSpec(benchmark_info)\<close>.\<close>

definition BenchmarkSpec_init :: "benchmark_info \<Rightarrow> state \<Rightarrow> (py_error + BenchmarkSpec) \<times> state" where
  "BenchmarkSpec_init info st =
     (case new_list [] st of
        (l0, st1) \<Rightarrow>
     (case new_list [] st1 of
        (l1, st2) \<Rightarrow>
     (case (case selected_config info st of
              Some cfg \<Rightarrow> init_config_branch cfg l0 l1 st2
            | None \<Rightarrow> init_flags_branch info l0 l1 st2) of
        (Inl e, st3) \<Rightarrow> (Inl e, st3)
      | (Inr self, st3) \<Rightarrow> finish_init info self st3)))"

section \<open>Sequences of calls\<close>

text \<open>
  The two methods that construct virtual machines, as calls a client may make in any
  order on one plan. A call that raises leaves the plan and the state as they were when
  it raised.
\<close>

datatype method_call =
    Call_CreateVirtualMachine "string option"
  | Call_CreateVirtualMachineFromNodeSection "(string \<times> string) list" string






section \<open>Example inputs\<close>

text \<open>A process started for GCP with two zones, and a topology of two node sections.\<close>

definition example_flags :: flags where
  "example_flags =
     \<lparr>FLAGS_cloud = ''GCP'', FLAGS_project = PyStr ''perfkit'',
      FLAGS_zones = [''us-central1-a'', ''us-central1-b''], FLAGS_image = None,
      FLAGS_machine_type = None, FLAGS_num_vms = 1, FLAGS_scratch_disk_size = 500,
      FLAGS_scratch_disk_type = PyNone, FLAGS_run_stage = ''all'',
      FLAGS_benchmark_config_pair = []\<rparr>"

definition example_state :: state where
  "example_state =
     \<lparr>vm_heap = [], net_heap = [], list_heap = [], static_source = [], trace = [],
      provider_fails = (\<lambda>history op. False), log_records = [], files = Map.empty,
      writable = (\<lambda>path. True), picklable = (\<lambda>graph. True), temp_dir = ''/tmp/perfkit'',
      OPTION_PD_PREFIX = ''pd'', FLAGS = example_flags\<rparr>"

definition example_info :: benchmark_info where
  "example_info = \<lparr>info_name = ''iperf'', info_num_machines = Some 3, info_scratch_disk = 1\<rparr>"

definition example_node_section :: "(string \<times> string) list" where
  "example_node_section =
     [(''count'', ''3''), (''image'', ''ubuntu''), (''vm_type'', ''large''),
      (''pd_scratch0'', ''100:ssd:/scratch0'')]"

definition example_topology :: ConfigLoader where
  "example_topology =
     \<lparr>sections =
        [(''cluster'', [(''type'', ''AWS''), (''project'', ''perfkit''), (''zone'', ''us-east-1a'')]),
         (''node:db'', example_node_section),
         (''node:web'', [(''count'', ''2''), (''zone'', ''us-east-1b''), (''image'', ''ubuntu''),
                        (''vm_type'', ''small'')])],
      node_sections = [''node:db'', ''node:web'']\<rparr>"

text \<open>The plan \<open>__init__\<close> builds for a benchmark of one machine with one scratch disk,
  and the state it leaves.\<close>

definition example_small_info :: benchmark_info where
  "example_small_info =
     \<lparr>info_name = ''iperf'', info_num_machines = None, info_scratch_disk = 1\<rparr>"

definition example_firewall :: BaseFirewall where
  "example_firewall = \<lparr>fw_class = GceFirewall, fw_project = PyStr ''perfkit''\<rparr>"

definition example_vm_spec :: BaseVirtualMachineSpec where
  "example_vm_spec =
     \<lparr>spec_project = PyStr ''perfkit'', spec_zone = ''us-central1-a'',
      spec_machine_type = PyStr ''n1-standard-1'', spec_image = PyStr ''debian-7-backports'',
      spec_network = 0\<rparr>"

definition example_disk_spec :: BaseDiskSpec where
  "example_disk_spec =
     \<lparr>disk_size = 500, disk_type = Some ''pd-standard'', mount_point = ''/scratch0''\<rparr>"

definition example_plan :: BenchmarkSpec where
  "example_plan =
     \<lparr>config = None, vms = 2, vm_dict = [(''default'', 2)],
      networks = [(''us-central1-a'', 0)], cloud = ''GCP'', project = PyStr ''perfkit'',
      zones = PyList [''us-central1-a'', ''us-central1-b''],
      image_attr = PyStr ''debian-7-backports'', machine_type = PyStr ''n1-standard-1'',
      num_vms = 1, scratch_disk_size = Some 500, scratch_disk_type = Some PyNone,
      vm_spec = Some example_vm_spec, firewall = Some example_firewall,
      file_name = ''/tmp/perfkit/iperf'', deleted = False\<rparr>"

definition example_plan_state :: state where
  "example_plan_state =
     example_state
       \<lparr>vm_heap := [\<lparr>vm_class_of = GceVirtualMachine, vm_spec_of = example_vm_spec,
                      disk_specs = [example_disk_spec]\<rparr>],
        net_heap := [\<lparr>net_class = GceNetwork, net_zone = ''us-central1-a''\<rparr>],
        list_heap := [[], [], [0]]\<rparr>"

text \<open>The same state with a provider whose firewall revocation raises the first time
  it is called and not afterwards.\<close>

definition example_flaky_state :: state where
  "example_flaky_state =
     example_plan_state
       \<lparr>provider_fails :=
          (\<lambda>history op. op = FirewallDisallowAllPorts example_firewall \<and>
                           FirewallDisallowAllPorts example_firewall \<notin> set history)\<rparr>"

text \<open>The plan as \<open>__init__\<close> has it when it resolves the node sections of the example
  topology: an empty group for every node section, and the cluster's zone.\<close>

definition example_topology_plan :: BenchmarkSpec where
  "example_topology_plan =
     \<lparr>config = Some example_topology, vms = 0,
      vm_dict = [(''default'', 1), (''db'', 2), (''web'', 3)], networks = [],
      cloud = ''AWS'', project = PyStr ''perfkit'', zones = PyList [''us-east-1a''],
      image_attr = PyList [], machine_type = PyList [], num_vms = 0,
      scratch_disk_size = None, scratch_disk_type = None, vm_spec = None, firewall = None,
      file_name = [], deleted = False\<rparr>"

definition example_topology_state :: state where
  "example_topology_state = example_state\<lparr>list_heap := [[], [], [], []]\<rparr>"

definition example_pd_spec :: BaseDiskSpec where
  "example_pd_spec = \<lparr>disk_size = 100, disk_type = Some ''gp2'', mount_point = ''/scratch0''\<rparr>"

text \<open>Three calls on the topology plan: the node section, then two single virtual
  machines, one in the zone of the section and one in another zone.\<close>

definition example_calls :: "method_call list" where
  "example_calls =
     [Call_CreateVirtualMachineFromNodeSection example_node_section ''db'',
      Call_CreateVirtualMachine (Some ''us-east-1a''),
      Call_CreateVirtualMachine (Some ''us-east-1b'')]"

text \<open>A process whose zone list ends in an empty string, as \<open>--zones=us-central1-a,\<close>
  gives it, and a benchmark of two machines without scratch disks.\<close>

definition example_empty_zone_state :: state where
  "example_empty_zone_state =
     example_state\<lparr>FLAGS := example_flags\<lparr>FLAGS_zones := [''us-central1-a'', []]\<rparr>\<rparr>"

definition example_two_info :: benchmark_info where
  "example_two_info =
     \<lparr>info_name = ''iperf'', info_num_machines = Some 2, info_scratch_disk = 0\<rparr>"

text \<open>The process started with the example topology for the benchmark, and with a
  topology whose cluster names a provider that is not registered.\<close>

definition example_topology_process :: state where
  "example_topology_process =
     example_state
       \<lparr>FLAGS := example_flags\<lparr>FLAGS_benchmark_config_pair := [(''iperf'', example_topology)]\<rparr>\<rparr>"

definition example_unregistered_topology :: ConfigLoader where
  "example_unregistered_topology =
     \<lparr>sections =
        [(''cluster'', [(''type'', ''Rackspace''), (''project'', ''perfkit''), (''zone'', ''dfw'')]),
         (''node:db'', example_node_section)],
      node_sections = [''node:db'']\<rparr>"

definition example_unregistered_process :: state where
  "example_unregistered_process =
     example_state
       \<lparr>FLAGS := example_flags
          \<lparr>FLAGS_benchmark_config_pair := [(''iperf'', example_unregistered_topology)]\<rparr>\<rparr>"

text \<open>Two calls on the plan of the small benchmark after \<open>__init__\<close> has returned: a
  virtual machine in the default zone, where the plan has a network, and one in the
  second zone.\<close>

definition example_later_calls :: "method_call list" where
  "example_later_calls =
     [Call_CreateVirtualMachine None, Call_CreateVirtualMachine (Some ''us-central1-b'')]"

section \<open>The disk type aliases\<close>

text \<open>
  C6. The logical disk type \<open>standard\<close> resolves to a string for the providers GCP and
  AWS, and to \<open>None\<close>, a value and not an error, for the provider Azure.
\<close>

theorem standard_disk_type_alias:
  "disk_type_alias GCP STANDARD = Inr (Some ''pd-standard'') \<and>
   disk_type_alias AWS STANDARD = Inr (Some ''standard'') \<and>
   disk_type_alias AZURE STANDARD = Inr None"
  by (simp add: disk_type_alias_def dict_get_def DISK_TYPE_def GCP_def AWS_def AZURE_def
      STANDARD_def SSD_def IOPS_def)

lemmas table_defs =
  DEFAULTS_def CLASSES_def DISK_TYPE_def GCP_def AWS_def AZURE_def STANDARD_def SSD_def
  IOPS_def

lemmas example_defs =
  example_flags_def example_state_def example_info_def example_small_info_def
  example_firewall_def example_vm_spec_def example_disk_spec_def example_plan_def
  example_plan_state_def example_flaky_state_def example_node_section_def
  example_topology_def example_topology_plan_def example_topology_state_def
  example_pd_spec_def example_calls_def example_empty_zone_state_def example_two_info_def
  example_topology_process_def example_unregistered_topology_def
  example_unregistered_process_def example_later_calls_def


section \<open>Unregistered providers\<close>

lemma dict_get_unregistered_DEFAULTS:
  "c \<notin> set [GCP, AZURE, AWS] \<Longrightarrow> dict_get DEFAULTS c = Inl (KeyError c)"
  by (auto simp: dict_get_def DEFAULTS_def)

lemma dict_get_unregistered_CLASSES:
  "c \<notin> set [GCP, AZURE, AWS] \<Longrightarrow> dict_get CLASSES c = Inl (KeyError c)"
  by (auto simp: dict_get_def CLASSES_def)

lemma finish_init_unregistered:
  "cloud self \<notin> set [GCP, AZURE, AWS] \<Longrightarrow>
   finish_init info self st = (Inl (KeyError (cloud self)), st)"
  by (simp add: finish_init_def dict_get_unregistered_CLASSES)

lemma init_flags_unregistered:
  "FLAGS_cloud (FLAGS st) \<notin> set [GCP, AZURE, AWS] \<Longrightarrow>
   init_flags_branch info l0 l1 st = (Inl (KeyError (FLAGS_cloud (FLAGS st))), st)"
  by (simp add: init_flags_branch_def dict_get_unregistered_DEFAULTS)

text \<open>No method assigns \<open>self.cloud\<close> after the branch of \<open>__init__\<close> has set it.\<close>

lemma memoize_network_cloud:
  "memoize_network zone self st = (r, self', st') \<Longrightarrow> cloud self' = cloud self"
  by (auto simp: memoize_network_def split: if_splits sum.splits prod.splits)

lemma note_summaries_cloud:
  "note_summaries zone ns self = (r, self') \<Longrightarrow> cloud self' = cloud self"
  by (auto simp: note_summaries_def Let_def split: sum.splits)

lemma CreateVirtualMachineFromNodeSection_cloud:
  "CreateVirtualMachineFromNodeSection ns nm self st = (r, self', st') \<Longrightarrow>
   cloud self' = cloud self"
  unfolding CreateVirtualMachineFromNodeSection_def
  by (auto split: sum.splits prod.splits dest!: memoize_network_cloud note_summaries_cloud)

lemma RunThreaded_nodes_cloud:
  "RunThreaded
     (\<lambda>(node_section, node_name) (self, s).
         CreateVirtualMachineFromNodeSection node_section node_name self s)
     args (self, st) = (failures, (self', st')) \<Longrightarrow> cloud self' = cloud self"
proof (induction args arbitrary: self st failures)
  case Nil
  then show ?case by simp
next
  case (Cons a args)
  obtain ns nm where a: "a = (ns, nm)" by (cases a)
  obtain r self1 st1 where
    c: "CreateVirtualMachineFromNodeSection ns nm self st = (r, self1, st1)"
    by (cases "CreateVirtualMachineFromNodeSection ns nm self st")
  from Cons.prems a c obtain fs where
    "RunThreaded
     (\<lambda>(node_section, node_name) (self, s).
         CreateVirtualMachineFromNodeSection node_section node_name self s)
     args (self1, st1) = (fs, (self', st'))"
    by (auto split: prod.splits)
  then have "cloud self' = cloud self1" by (rule Cons.IH)
  with CreateVirtualMachineFromNodeSection_cloud[OF c] show ?case by simp
qed

lemma node_groups_cloud:
  "node_groups nodes self st = (r, self', st') \<Longrightarrow> cloud self' = cloud self"
  by (induction nodes arbitrary: self st) (auto split: sum.splits prod.splits)

lemma init_config_branch_cloud:
  assumes "init_config_branch cfg l0 l1 st = (Inr self, st')"
    and "dict_get (sections cfg) ''cluster'' = Inr cluster"
    and "dict_get cluster ''type'' = Inr c"
  shows "cloud self = c"
  using assms unfolding init_config_branch_def
  by (auto split: sum.splits prod.splits dest!: node_groups_cloud RunThreaded_nodes_cloud)

text \<open>
  C7. Resolving a provider identifier outside GCP, Azure and AWS fails. The module has
  no exception class of its own for this: the failure is the \<open>KeyError\<close> of the lookup in
  \<open>DEFAULTS\<close> (line 141) or \<open>CLASSES\<close> (line 166), carrying the identifier. Without a
  topology \<open>__init__\<close> raises exactly that error; with a topology whose cluster type is
  the identifier \<open>__init__\<close> never returns a plan.
\<close>

theorem unregistered_provider_fails:
  "c \<notin> set [GCP, AZURE, AWS] \<Longrightarrow>
     dict_get DEFAULTS c = Inl (KeyError c) \<and>
     dict_get CLASSES c = Inl (KeyError c) \<and>
     (selected_config info st = None \<and> FLAGS_cloud (FLAGS st) = c \<longrightarrow>
        fst (BenchmarkSpec_init info st) = Inl (KeyError c)) \<and>
     (\<forall>cfg cluster.
        selected_config info st = Some cfg \<and>
        dict_get (sections cfg) ''cluster'' = Inr cluster \<and>
        dict_get cluster ''type'' = Inr c \<longrightarrow>
        (\<exists>e. fst (BenchmarkSpec_init info st) = Inl e))"
proof (intro conjI impI allI)
  assume c: "c \<notin> set [GCP, AZURE, AWS]"
  show "dict_get DEFAULTS c = Inl (KeyError c)"
    by (rule dict_get_unregistered_DEFAULTS[OF c])
  show "dict_get CLASSES c = Inl (KeyError c)"
    by (rule dict_get_unregistered_CLASSES[OF c])
  show "fst (BenchmarkSpec_init info st) = Inl (KeyError c)"
    if "selected_config info st = None \<and> FLAGS_cloud (FLAGS st) = c"
    using that c
    by (simp add: BenchmarkSpec_init_def new_list_def init_flags_unregistered)
  show "\<exists>e. fst (BenchmarkSpec_init info st) = Inl e"
    if h: "selected_config info st = Some cfg \<and>
        dict_get (sections cfg) ''cluster'' = Inr cluster \<and>
        dict_get cluster ''type'' = Inr c" for cfg cluster
  proof -
    obtain l0 st1 where l0: "new_list [] st = (l0, st1)" by (cases "new_list [] st")
    obtain l1 st2 where l1: "new_list [] st1 = (l1, st2)" by (cases "new_list [] st1")
    obtain r st3 where b: "init_config_branch cfg l0 l1 st2 = (r, st3)"
      by (cases "init_config_branch cfg l0 l1 st2")
    show ?thesis
    proof (cases r)
      case (Inl e)
      with h l0 l1 b show ?thesis by (simp add: BenchmarkSpec_init_def)
    next
      case (Inr self)
      with b h have "cloud self = c" by (auto intro: init_config_branch_cloud)
      with c have "finish_init info self st3 = (Inl (KeyError c), st3)"
        using finish_init_unregistered[of self info st3] by simp
      with h l0 l1 b Inr show ?thesis by (simp add: BenchmarkSpec_init_def)
    qed
  qed
qed

lemma split_node_db: "split_on CHR '':'' ''node:db'' = [''node'', ''db'']"
  by code_simp

lemma split_node_web: "split_on CHR '':'' ''node:web'' = [''node'', ''web'']"
  by code_simp

lemma example_unregistered_built:
  "fst (BenchmarkSpec_init example_info example_unregistered_process) =
     Inl (KeyError ''Rackspace'')"
  by (simp add: BenchmarkSpec_init_def selected_config_def init_config_branch_def
      finish_init_def new_list_def dict_get_def table_defs split_node_db list_get_def
      CreateVirtualMachineFromNodeSection_def node_zone_def dict_has_def
      note_summaries_def append_if_absent_def memoize_network_def
      example_defs Let_def)

theorem unregistered_provider_fails_witness:
  "''Rackspace'' \<notin> set [GCP, AZURE, AWS] \<and>
   dict_get DEFAULTS ''Rackspace'' = Inl (KeyError ''Rackspace'') \<and>
   dict_get CLASSES ''Rackspace'' = Inl (KeyError ''Rackspace'') \<and>
   selected_config example_info
     (example_state\<lparr>FLAGS := example_flags\<lparr>FLAGS_cloud := ''Rackspace''\<rparr>\<rparr>) = None \<and>
   fst (BenchmarkSpec_init example_info
          (example_state\<lparr>FLAGS := example_flags\<lparr>FLAGS_cloud := ''Rackspace''\<rparr>\<rparr>)) =
     Inl (KeyError ''Rackspace'') \<and>
   selected_config example_info example_unregistered_process =
     Some example_unregistered_topology \<and>
   fst (BenchmarkSpec_init example_info example_unregistered_process) =
     Inl (KeyError ''Rackspace'')"
  using unregistered_provider_fails[of "''Rackspace''" example_info
      "example_state\<lparr>FLAGS := example_flags\<lparr>FLAGS_cloud := ''Rackspace''\<rparr>\<rparr>"]
    unregistered_provider_fails[of "''Rackspace''" example_info example_unregistered_process]
    example_unregistered_built
  by (simp add: selected_config_def example_flags_def example_state_def GCP_def AZURE_def
      AWS_def example_info_def example_unregistered_process_def)

section \<open>Loading and saving the snapshot\<close>

text \<open>
  C8. Loading the snapshot of a benchmark whose file is missing, unreadable or no pickle
  raises: the error is logged once, then the same error reaches the caller, and no plan
  is returned. The module re-raises the exception it caught (\<open>raise e\<close>); for a missing
  or unreadable file that is the \<open>IOError\<close> of \<open>open\<close>.
\<close>

theorem load_missing_or_unreadable:
  "files st (GetTempDir st @ ''/'' @ name) \<in> {None, Some Unreadable, Some Garbled} \<Longrightarrow>
   (\<exists>e. GetSpecFromFile name st =
      (Inl e, st\<lparr>log_records := log_records st @
                 [ERROR (''Unable to unpickle spec file for benchmark '' @ name @ ''.'')]\<rparr>) \<and>
      (files st (GetTempDir st @ ''/'' @ name) \<noteq> Some Garbled \<longrightarrow>
         e = IOError (GetTempDir st @ ''/'' @ name)))"
  by (auto simp: GetSpecFromFile_def open_and_load_def logging_def)

theorem load_missing_or_unreadable_witness:
  "files example_state (GetTempDir example_state @ ''/'' @ ''iperf'') \<in>
     {None, Some Unreadable, Some Garbled} \<and>
   fst (GetSpecFromFile ''iperf'' example_state) = Inl (IOError ''/tmp/perfkit/iperf'') \<and>
   log_records (snd (GetSpecFromFile ''iperf'' example_state)) =
     [ERROR ''Unable to unpickle spec file for benchmark iperf.'']"
  using load_missing_or_unreadable[of example_state "''iperf''"]
  by (auto simp: example_state_def GetTempDir_def)

text \<open>The path \<open>__init__\<close> stores is the one \<open>GetSpecFromFile\<close> computes from the name.\<close>

lemma init_file_name:
  "BenchmarkSpec_init info st = (Inr self, st') \<Longrightarrow>
   file_name self = GetTempDir st' @ ''/'' @ info_name info"
  by (auto simp: BenchmarkSpec_init_def finish_init_def
      split: prod.splits sum.splits option.splits)

text \<open>
  C9. A plan saved with \<open>PickleSpec\<close> and loaded back by the benchmark name its file
  name was derived from comes back as the same object graph: the same \<open>num_vms\<close> and
  number of virtual machines, the same zones, and the same groups with the same members.
\<close>

theorem snapshot_round_trip:
  assumes "PickleSpec self st = (Inr (), st')"
    and "file_name self = GetTempDir st @ ''/'' @ name"
  shows "\<exists>plan vm_objects net_objects lists.
     GetSpecFromFile name st' = (Inr (plan, vm_objects, net_objects, lists), st') \<and>
     (plan, vm_objects, net_objects, lists) = snapshot_of self st \<and>
     num_vms plan = num_vms self \<and>
     length (lists ! vms plan) = length (list_heap st ! vms self) \<and>
     zones plan = zones self \<and>
     map fst (networks plan) = map fst (networks self) \<and>
     map (\<lambda>vm. spec_zone (vm_spec_of vm)) vm_objects =
       map (\<lambda>vm. spec_zone (vm_spec_of vm)) (vm_heap st) \<and>
     map (\<lambda>(name, l). (name, lists ! l)) (vm_dict plan) =
       map (\<lambda>(name, l). (name, list_heap st ! l)) (vm_dict self)"
  using assms
  by (auto simp: PickleSpec_def GetSpecFromFile_def open_and_load_def GetTempDir_def
      snapshot_of_def split: if_splits)

theorem snapshot_round_trip_witness:
  "fst (PickleSpec example_plan example_plan_state) = Inr () \<and>
   file_name example_plan = GetTempDir example_plan_state @ ''/'' @ ''iperf'' \<and>
   fst (GetSpecFromFile ''iperf'' (snd (PickleSpec example_plan example_plan_state))) =
     Inr (snapshot_of example_plan example_plan_state)"
proof -
  have ok: "fst (PickleSpec example_plan example_plan_state) = Inr ()"
    by (simp add: PickleSpec_def example_defs)
  then have saved: "PickleSpec example_plan example_plan_state =
      (Inr (), snd (PickleSpec example_plan example_plan_state))"
    by (metis prod.collapse)
  have path: "file_name example_plan = GetTempDir example_plan_state @ ''/'' @ ''iperf''"
    by (simp add: example_defs GetTempDir_def)
  from snapshot_round_trip[OF saved path] ok path show ?thesis
    by auto
qed

section \<open>Delete\<close>

text \<open>The provider calls made by \<open>Delete\<close> touch nothing of the state but the record of
  calls.\<close>

lemma DeleteVm_state: "\<exists>t. snd (DeleteVm vm st) = st\<lparr>trace := t\<rparr>"
  by (auto simp: DeleteVm_def then_do_def perform_def)

lemma RunThreaded_DeleteVm_state: "\<exists>t. snd (RunThreaded DeleteVm xs st) = st\<lparr>trace := t\<rparr>"
proof (induction xs arbitrary: st)
  case Nil
  have "st = st\<lparr>trace := trace st\<rparr>" by simp
  then show ?case by (metis RunThreaded.simps(1) snd_conv)
next
  case (Cons x xs)
  obtain t1 where t1: "snd (DeleteVm x st) = st\<lparr>trace := t1\<rparr>"
    using DeleteVm_state by blast
  obtain t2 where
    "snd (RunThreaded DeleteVm xs (st\<lparr>trace := t1\<rparr>)) = st\<lparr>trace := t1\<rparr>\<lparr>trace := t2\<rparr>"
    using Cons.IH by blast
  with t1 show ?case by (auto split: prod.splits)
qed

lemma delete_networks_state: "\<exists>t. snd (delete_networks xs st) = st\<lparr>trace := t\<rparr>"
proof (induction xs arbitrary: st)
  case Nil
  have "st = st\<lparr>trace := trace st\<rparr>" by simp
  then show ?case by (metis delete_networks.simps(1) snd_conv)
next
  case (Cons x xs)
  obtain t2 where
    "snd (delete_networks xs (st\<lparr>trace := trace st @ [NetworkDelete x]\<rparr>)) =
       st\<lparr>trace := trace st @ [NetworkDelete x]\<rparr>\<lparr>trace := t2\<rparr>"
    using Cons.IH by blast
  then show ?case by (auto simp: then_do_def perform_def)
qed

lemma Delete_state: "\<exists>t. snd (snd (Delete self st)) = st\<lparr>trace := t\<rparr>"
proof -
  have id: "st = st\<lparr>trace := trace st\<rparr>" by simp
  obtain t1 where
    t1: "snd (RunThreaded DeleteVm (list_heap st ! vms self) st) = st\<lparr>trace := t1\<rparr>"
    using RunThreaded_DeleteVm_state by blast
  define st1 where
    "st1 = (if list_heap st ! vms self \<noteq> []
            then snd (RunThreaded DeleteVm (list_heap st ! vms self) st) else st)"
  have "\<exists>t. st1 = st\<lparr>trace := t\<rparr>"
    unfolding st1_def using t1 id by (metis (full_types))
  then obtain ta where ta: "st1 = st\<lparr>trace := ta\<rparr>" by blast
  have dn: "\<exists>t. snd (delete_networks nets (st\<lparr>trace := s\<rparr>)) = st\<lparr>trace := t\<rparr>" for nets s
  proof -
    obtain t where
      "snd (delete_networks nets (st\<lparr>trace := s\<rparr>)) = st\<lparr>trace := s\<rparr>\<lparr>trace := t\<rparr>"
      using delete_networks_state by blast
    then show ?thesis by auto
  qed
  show ?thesis
  proof (cases "FLAGS_run_stage (FLAGS st) \<notin> set [''all'', ''cleanup''] \<or> deleted self")
    case True
    then have "snd (snd (Delete self st)) = st" by (simp add: Delete_def)
    with id show ?thesis by metis
  next
    case False
    show ?thesis
    proof (cases "firewall self")
      case None
      with False have "snd (snd (Delete self st)) = st1"
        by (simp add: Delete_def st1_def Let_def)
      with ta show ?thesis by blast
    next
      case (Some fw)
      obtain t3 where
        t3: "snd (delete_networks (map snd (networks self))
               (st\<lparr>trace := ta @ [FirewallDisallowAllPorts fw]\<rparr>)) = st\<lparr>trace := t3\<rparr>"
        using dn by blast
      have "snd (snd (Delete self st)) = st\<lparr>trace := ta @ [FirewallDisallowAllPorts fw]\<rparr>
          \<or> snd (snd (Delete self st)) = st\<lparr>trace := t3\<rparr>"
        using False Some t3 ta
        by (auto simp: Delete_def Let_def st1_def[symmetric] perform_def
            split: prod.splits sum.splits)
      then show ?thesis by blast
    qed
  qed
qed

text \<open>
  C10. A \<open>Delete\<close> that returns changes nothing of the plan but \<open>deleted\<close>, which it sets
  when the run stage is \<open>all\<close> or \<open>cleanup\<close> and the plan was not yet deleted: the list of
  virtual machines, the groups, the networks, the firewall and the file name are as
  before, and so are the lists and objects they name.
\<close>

theorem Delete_frame:
  assumes "Delete self st = (Inr (), self', st')"
  shows "self' = (if FLAGS_run_stage (FLAGS st) \<in> set [''all'', ''cleanup''] \<and> \<not> deleted self
                  then self\<lparr>deleted := True\<rparr> else self) \<and>
         vms self' = vms self \<and> vm_dict self' = vm_dict self \<and>
         networks self' = networks self \<and> firewall self' = firewall self \<and>
         file_name self' = file_name self \<and>
         list_heap st' = list_heap st \<and> vm_heap st' = vm_heap st \<and>
         net_heap st' = net_heap st"
proof -
  obtain t where "snd (snd (Delete self st)) = st\<lparr>trace := t\<rparr>"
    using Delete_state by blast
  with assms have st': "st' = st\<lparr>trace := t\<rparr>" by simp
  have "self' = (if FLAGS_run_stage (FLAGS st) \<in> set [''all'', ''cleanup''] \<and> \<not> deleted self
                  then self\<lparr>deleted := True\<rparr> else self)"
    using assms
    by (auto simp: Delete_def Let_def split: option.splits prod.splits sum.splits if_splits)
  with st' show ?thesis by simp
qed

lemma example_Delete:
  "Delete example_plan example_plan_state =
     (Inr (), example_plan\<lparr>deleted := True\<rparr>,
      example_plan_state
        \<lparr>trace := [VmDelete 0, VmDeleteScratchDisks 0,
                   FirewallDisallowAllPorts example_firewall, NetworkDelete 0]\<rparr>)"
  by (simp add: Delete_def example_defs Let_def DeleteVm_def then_do_def perform_def)

theorem Delete_frame_witness:
  "fst (Delete example_plan example_plan_state) = Inr () \<and>
   fst (snd (Delete example_plan example_plan_state)) = example_plan\<lparr>deleted := True\<rparr> \<and>
   vms (fst (snd (Delete example_plan example_plan_state))) = 2 \<and>
   vm_dict (fst (snd (Delete example_plan example_plan_state))) = [(''default'', 2)] \<and>
   networks (fst (snd (Delete example_plan example_plan_state))) = [(''us-central1-a'', 0)] \<and>
   list_heap (snd (snd (Delete example_plan example_plan_state))) = [[], [], [0]]"
  using Delete_frame[OF example_Delete]
  by (simp add: example_Delete) (simp add: example_defs)

text \<open>
  C2, as the code has it. \<open>Delete\<close> does nothing when the run stage is neither \<open>all\<close> nor
  \<open>cleanup\<close> or the plan is already deleted; and after a \<open>Delete\<close> that returned, a
  second \<open>Delete\<close> makes no provider call and changes nothing. \<open>deleted\<close> is set by the
  last statement only, so a \<open>Delete\<close> that a provider call aborted leaves it \<open>False\<close>.
\<close>

theorem Delete_second_call_noop:
  "(FLAGS_run_stage (FLAGS st) \<notin> set [''all'', ''cleanup''] \<or> deleted self \<longrightarrow>
      Delete self st = (Inr (), self, st)) \<and>
   (Delete self st = (Inr (), self', st') \<longrightarrow>
      Delete self' st' = (Inr (), self', st') \<and>
      trace (snd (snd (Delete self' st'))) = trace st')"
proof (intro conjI impI)
  assume "FLAGS_run_stage (FLAGS st) \<notin> set [''all'', ''cleanup''] \<or> deleted self"
  then show "Delete self st = (Inr (), self, st)" by (simp add: Delete_def)
next
  assume a: "Delete self st = (Inr (), self', st')"
  obtain t where "snd (snd (Delete self st)) = st\<lparr>trace := t\<rparr>"
    using Delete_state by blast
  with a have st': "FLAGS st' = FLAGS st" by simp
  have "FLAGS_run_stage (FLAGS st) \<notin> set [''all'', ''cleanup''] \<or> deleted self'"
    using a
    by (auto simp: Delete_def Let_def split: option.splits prod.splits sum.splits if_splits)
  with st' show d: "Delete self' st' = (Inr (), self', st')" by (simp add: Delete_def)
  then show "trace (snd (snd (Delete self' st'))) = trace st'" by simp
qed

theorem Delete_second_call_noop_witness:
  "Delete example_plan example_plan_state =
     (Inr (), example_plan\<lparr>deleted := True\<rparr>,
      example_plan_state
        \<lparr>trace := [VmDelete 0, VmDeleteScratchDisks 0,
                   FirewallDisallowAllPorts example_firewall, NetworkDelete 0]\<rparr>) \<and>
   Delete (example_plan\<lparr>deleted := True\<rparr>)
     (example_plan_state
        \<lparr>trace := [VmDelete 0, VmDeleteScratchDisks 0,
                   FirewallDisallowAllPorts example_firewall, NetworkDelete 0]\<rparr>) =
     (Inr (), example_plan\<lparr>deleted := True\<rparr>,
      example_plan_state
        \<lparr>trace := [VmDelete 0, VmDeleteScratchDisks 0,
                   FirewallDisallowAllPorts example_firewall, NetworkDelete 0]\<rparr>)"
  using Delete_second_call_noop[of example_plan_state example_plan
      "example_plan\<lparr>deleted := True\<rparr>"
      "example_plan_state
        \<lparr>trace := [VmDelete 0, VmDeleteScratchDisks 0,
                   FirewallDisallowAllPorts example_firewall, NetworkDelete 0]\<rparr>"]
    example_Delete
  by simp

text \<open>
  The claim C2 as stated fails: a \<open>Delete\<close> whose firewall revocation raises leaves
  \<open>deleted\<close> unset, and the second \<open>Delete\<close> on the same plan deletes the virtual machine
  again, revokes the firewall rules and deletes the network.
\<close>

theorem Delete_after_failure_counterexample:
  "fst (Delete example_plan example_flaky_state) =
     Inl (ProviderError (FirewallDisallowAllPorts example_firewall)) \<and>
   trace (snd (snd (Delete (fst (snd (Delete example_plan example_flaky_state)))
                           (snd (snd (Delete example_plan example_flaky_state)))))) =
     trace (snd (snd (Delete example_plan example_flaky_state))) @
       [VmDelete 0, VmDeleteScratchDisks 0, FirewallDisallowAllPorts example_firewall,
        NetworkDelete 0]"
  by (simp add: Delete_def example_defs Let_def DeleteVm_def then_do_def perform_def)

section \<open>PrepareVm\<close>

lemma create_scratch_disks_trace:
  "\<exists>k\<le>length ds.
     snd (create_scratch_disks vm ds st) =
       st\<lparr>trace := trace st @ take k (map (VmCreateScratchDisk vm) ds)\<rparr> \<and>
     (fst (create_scratch_disks vm ds st) = Inr () \<longrightarrow> k = length ds) \<and>
     ((\<forall>h op. \<not> provider_fails st h op) \<longrightarrow> fst (create_scratch_disks vm ds st) = Inr ())"
proof (induction ds arbitrary: st)
  case Nil
  then show ?case by simp
next
  case (Cons d ds)
  let ?st1 = "st\<lparr>trace := trace st @ [VmCreateScratchDisk vm d]\<rparr>"
  show ?case
  proof (cases "provider_fails st (trace st) (VmCreateScratchDisk vm d)")
    case True
    then have "snd (create_scratch_disks vm (d # ds) st) = ?st1"
      and "fst (create_scratch_disks vm (d # ds) st) \<noteq> Inr ()"
      by (simp_all add: then_do_def perform_def)
    with True show ?thesis
      by (intro exI[of _ 1]) auto
  next
    case False
    then have eq: "create_scratch_disks vm (d # ds) st = create_scratch_disks vm ds ?st1"
      by (simp add: then_do_def perform_def)
    from Cons.IH[of ?st1] obtain k where k: "k \<le> length ds"
      "snd (create_scratch_disks vm ds ?st1) =
         ?st1\<lparr>trace := trace ?st1 @ take k (map (VmCreateScratchDisk vm) ds)\<rparr>"
      "fst (create_scratch_disks vm ds ?st1) = Inr () \<longrightarrow> k = length ds"
      "(\<forall>h op. \<not> provider_fails ?st1 h op) \<longrightarrow> fst (create_scratch_disks vm ds ?st1) = Inr ()"
      by blast
    show ?thesis
      using k eq by (intro exI[of _ "Suc k"]) auto
  qed
qed

lemma take_four_more:
  assumes "j \<le> length ys"
  shows "take (4 + j) (a # b # c # d # ys @ [z]) = a # b # c # d # take j ys"
proof -
  have "4 + j = Suc (Suc (Suc (Suc j)))" by simp
  then show ?thesis using assms by (simp only: take_Suc_Cons) simp
qed

text \<open>
  C3. The provider calls \<open>PrepareVm\<close> makes for a virtual machine are an initial part of
  the sequence: create, open port 22 on the firewall, wait for boot completion, refresh
  the package index, one scratch disk per disk spec in the order of \<open>disk_specs\<close>, CPU
  warm-up. A call that raises ends the sequence there; when \<open>PrepareVm\<close> returns the
  whole sequence was made, and it returns whenever no provider call raises.
\<close>

theorem PrepareVm_order:
  "\<exists>k \<le> length (disk_specs (vm_heap st ! vm)) + 5.
     trace (snd (PrepareVm vm fw st)) =
       trace st @
       take k ([VmCreate vm, FirewallAllowPort fw vm 22, VmWaitForBootCompletion vm,
                VmAptUpdate vm] @
               map (VmCreateScratchDisk vm) (disk_specs (vm_heap st ! vm)) @
               [BurnCpu vm]) \<and>
     (fst (PrepareVm vm fw st) = Inr () \<longrightarrow> k = length (disk_specs (vm_heap st ! vm)) + 5) \<and>
     ((\<forall>h op. \<not> provider_fails st h op) \<longrightarrow> fst (PrepareVm vm fw st) = Inr ())"
proof -
  let ?ds = "disk_specs (vm_heap st ! vm)"
  let ?steps = "[VmCreate vm, FirewallAllowPort fw vm 22, VmWaitForBootCompletion vm,
                VmAptUpdate vm] @ map (VmCreateScratchDisk vm) ?ds @ [BurnCpu vm]"
  let ?P = "\<lambda>k. k \<le> length ?ds + 5 \<and>
     trace (snd (PrepareVm vm fw st)) = trace st @ take k ?steps \<and>
     (fst (PrepareVm vm fw st) = Inr () \<longrightarrow> k = length ?ds + 5) \<and>
     ((\<forall>h op. \<not> provider_fails st h op) \<longrightarrow> fst (PrepareVm vm fw st) = Inr ())"
  let ?s1 = "st\<lparr>trace := trace st @ [VmCreate vm]\<rparr>"
  let ?s2 = "st\<lparr>trace := trace st @ [VmCreate vm, FirewallAllowPort fw vm 22],
               log_records := log_records st @
                 [INFO_VM_ip vm, INFO ''Waiting for boot completion.'']\<rparr>"
  let ?s3 = "?s2\<lparr>trace := trace st @ [VmCreate vm, FirewallAllowPort fw vm 22,
                                       VmWaitForBootCompletion vm]\<rparr>"
  let ?s4 = "?s2\<lparr>trace := trace st @ [VmCreate vm, FirewallAllowPort fw vm 22,
                                       VmWaitForBootCompletion vm, VmAptUpdate vm]\<rparr>"
  consider (f1) "provider_fails st (trace st) (VmCreate vm)"
    | (f2) "\<not> provider_fails st (trace st) (VmCreate vm)"
           "provider_fails st (trace ?s1) (FirewallAllowPort fw vm 22)"
    | (f3) "\<not> provider_fails st (trace st) (VmCreate vm)"
           "\<not> provider_fails st (trace ?s1) (FirewallAllowPort fw vm 22)"
           "provider_fails st (trace ?s2) (VmWaitForBootCompletion vm)"
    | (f4) "\<not> provider_fails st (trace st) (VmCreate vm)"
           "\<not> provider_fails st (trace ?s1) (FirewallAllowPort fw vm 22)"
           "\<not> provider_fails st (trace ?s2) (VmWaitForBootCompletion vm)"
           "provider_fails st (trace ?s3) (VmAptUpdate vm)"
    | (ok) "\<not> provider_fails st (trace st) (VmCreate vm)"
           "\<not> provider_fails st (trace ?s1) (FirewallAllowPort fw vm 22)"
           "\<not> provider_fails st (trace ?s2) (VmWaitForBootCompletion vm)"
           "\<not> provider_fails st (trace ?s3) (VmAptUpdate vm)"
    by blast
  then have "\<exists>k. ?P k"
  proof cases
    case f1
    then have "?P 1"
      by (auto simp: PrepareVm_def then_do_def perform_def)
    then show ?thesis ..
  next
    case f2
    then have "?P 2"
      by (auto simp: PrepareVm_def then_do_def perform_def logging_def SSH_PORT_def)
    then show ?thesis ..
  next
    case f3
    then have "?P 3"
      by (auto simp: PrepareVm_def then_do_def perform_def logging_def SSH_PORT_def)
    then show ?thesis ..
  next
    case f4
    then have "?P 4"
      by (auto simp: PrepareVm_def then_do_def perform_def logging_def SSH_PORT_def)
    then show ?thesis ..
  next
    case ok
    from create_scratch_disks_trace[of ?ds vm ?s4] obtain j where j: "j \<le> length ?ds"
      "snd (create_scratch_disks vm ?ds ?s4) =
         ?s4\<lparr>trace := trace ?s4 @ take j (map (VmCreateScratchDisk vm) ?ds)\<rparr>"
      "fst (create_scratch_disks vm ?ds ?s4) = Inr () \<longrightarrow> j = length ?ds"
      "(\<forall>h op. \<not> provider_fails ?s4 h op) \<longrightarrow> fst (create_scratch_disks vm ?ds ?s4) = Inr ()"
      by blast
    have unf: "PrepareVm vm fw st =
       then_do (create_scratch_disks vm ?ds ?s4) (\<lambda>_ st5. perform (BurnCpu vm) st5)"
      using ok by (simp add: PrepareVm_def then_do_def perform_def logging_def SSH_PORT_def)
    show ?thesis
    proof (cases "fst (create_scratch_disks vm ?ds ?s4)")
      case (Inl e)
      have "PrepareVm vm fw st = (Inl e, snd (create_scratch_disks vm ?ds ?s4))"
        using Inl unf by (cases "create_scratch_disks vm ?ds ?s4") (simp add: then_do_def)
      with j Inl have "?P (4 + j)"
        by (auto simp: take_four_more)
      then show ?thesis ..
    next
      case (Inr u)
      with j have jl: "j = length ?ds" by simp
      have "PrepareVm vm fw st = perform (BurnCpu vm) (snd (create_scratch_disks vm ?ds ?s4))"
        using Inr unf by (cases "create_scratch_disks vm ?ds ?s4") (simp add: then_do_def)
      with j jl have "?P (length ?ds + 5)"
        by (auto simp: perform_def)
      then show ?thesis ..
    qed
  qed
  then show ?thesis by blast
qed

theorem PrepareVm_order_witness:
  "(\<forall>h op. \<not> provider_fails example_plan_state h op) \<and>
   fst (PrepareVm 0 example_firewall example_plan_state) = Inr () \<and>
   trace (snd (PrepareVm 0 example_firewall example_plan_state)) =
     [VmCreate 0, FirewallAllowPort example_firewall 0 22, VmWaitForBootCompletion 0,
      VmAptUpdate 0, VmCreateScratchDisk 0 example_disk_spec, BurnCpu 0]"
proof -
  have quiet: "\<forall>h op. \<not> provider_fails example_plan_state h op"
    by (simp add: example_plan_state_def example_state_def)
  have ds: "disk_specs (vm_heap example_plan_state ! 0) = [example_disk_spec]"
    and tr: "trace example_plan_state = []"
    by (simp_all add: example_plan_state_def example_state_def)
  from PrepareVm_order[of example_plan_state 0 example_firewall] quiet
  show ?thesis by (auto simp: ds tr)
qed

section \<open>Node sections\<close>

lemma new_vms_eq:
  "new_vms cls spec n st =
     ([length (vm_heap st) ..< length (vm_heap st) + n],
      st\<lparr>vm_heap := vm_heap st @
           replicate n \<lparr>vm_class_of = cls, vm_spec_of = spec, disk_specs = []\<rparr>\<rparr>)"
proof (induction n arbitrary: st)
  case 0
  then show ?case by simp
next
  case (Suc n)
  show ?case
    by (simp add: new_vm_def Suc.IH upt_conv_Cons replicate_app_Cons_same del: upt_Suc)
qed










lemma py_int_3: "py_int ''3'' = Inr 3" by code_simp
lemma parse_example: "parse_disk_option ''AWS'' ''100:ssd:/scratch0'' = Inr example_pd_spec"
  by code_simp



text \<open>\<open>__init__\<close> on the example topology: the group of the section \<open>node:db\<close> is the
  three machines with the disk spec, the group of \<open>node:web\<close> the two without.\<close>

lemma py_int_2: "py_int ''2'' = Inr 2"
  by code_simp

lemma example_topology_built:
  "map_sum id vm_dict (fst (BenchmarkSpec_init example_info example_topology_process)) =
     Inr [(''default'', 1), (''db'', 2), (''web'', 3)]"
  "list_heap (snd (BenchmarkSpec_init example_info example_topology_process)) =
     [[0, 1, 2, 3, 4], [], [0, 1, 2], [3, 4]]"
  "map disk_specs (vm_heap (snd (BenchmarkSpec_init example_info example_topology_process))) =
     [[example_pd_spec], [example_pd_spec], [example_pd_spec], [], []]"
  by (simp_all add: BenchmarkSpec_init_def selected_config_def init_config_branch_def
      finish_init_def new_list_def dict_get_def table_defs split_node_db split_node_web
      list_get_def CreateVirtualMachineFromNodeSection_def node_zone_def dict_has_def
      note_summaries_def append_if_absent_def memoize_network_def new_network_def
      py_int_3 py_int_2 new_vms_eq extend_list_def startswith_def parse_example
      example_defs Let_def numeral_3_eq_3 numeral_2_eq_2 upt_rec GetTempDir_def)


section \<open>One network per zone\<close>


























section \<open>Zone assignment without a topology\<close>













end
